theory Spec2Isabelle
  imports Main
begin

section \<open>Python values, dictionaries and errors\<close>

text \<open>
  Field values of a record are Python scalars. On \<open>None\<close>, integers and strings Python's
  \<open>==\<close> is structural equality (values of different kinds are unequal), so HOL equality
  on \<open>pyval\<close> is the comparison the adapters make. Floats and booleans are left out.
\<close>

datatype pyval = PNone | PInt int | PStr string

text \<open>
  The exceptions that the modelled code raises: \<open>NotFoundError\<close> (sheetdb/exceptions.py),
  the built-in \<open>TypeError\<close> and \<open>ValueError\<close>, and \<open>APIError\<close> of gspread.
\<close>

datatype error = NotFoundError | TypeError | ValueError | APIError

text \<open>
  A Python \<open>dict\<close> keeps its keys in insertion order. It is an association list with
  distinct keys; \<open>d[k] = v\<close> overwrites the value in place when the key is present and
  appends the pair otherwise.
\<close>

type_synonym ('k, 'v) dict = "('k \<times> 'v) list"

primrec dict_setitem :: "'k \<Rightarrow> 'v \<Rightarrow> ('k, 'v) dict \<Rightarrow> ('k, 'v) dict" where
  "dict_setitem k v [] = [(k, v)]"
| "dict_setitem k v (p # ps) = (if fst p = k then (k, v) # ps else p # dict_setitem k v ps)"

text \<open>A dict comprehension \<open>{k: v for ...}\<close>, and \<open>dict(zip(ks, vs))\<close>: the pairs are stored one by one.\<close>

definition dict_of_items :: "('k \<times> 'v) list \<Rightarrow> ('k, 'v) dict" where
  "dict_of_items kvs = foldl (\<lambda>d (k, v). dict_setitem k v d) [] kvs"

text \<open>\<open>d.get(k, default)\<close>.\<close>

definition dict_get :: "('k, 'v) dict \<Rightarrow> 'k \<Rightarrow> 'v \<Rightarrow> 'v" where
  "dict_get d k dflt = (case map_of d k of None \<Rightarrow> dflt | Some v \<Rightarrow> v)"

text \<open>
  \<open>str(v)\<close> as the csv writer applies it to a cell: a string is written as it is, \<open>None\<close> as the
  empty string, an integer in decimal.
\<close>

definition digit_char :: "nat \<Rightarrow> char" where
  "digit_char d = char_of (48 + d)"

function str_nat :: "nat \<Rightarrow> string" where
  "str_nat n = (if n < 10 then [digit_char n] else str_nat (n div 10) @ [digit_char (n mod 10)])"
  by pat_completeness auto
termination
  by (relation "measure id") auto

declare str_nat.simps [simp del]

definition py_str :: "pyval \<Rightarrow> string" where
  "py_str v = (case v of PNone \<Rightarrow> ''''
                | PStr s \<Rightarrow> s
                | PInt i \<Rightarrow> (if i < 0 then CHR ''-'' # str_nat (nat (- i)) else str_nat (nat i)))"

section \<open>Record models (sheetdb/interfaces/model.py)\<close>

text \<open>
  An instance of a \<open>SheetModel\<close> subclass. \<open>model_dump\<close> is the dict of its declared fields, in
  declaration order; \<open>get_field_map\<close> and \<open>get_sheet_name\<close> are what the calls
  \<open>instance.get_field_map()\<close> and \<open>instance.get_sheet_name()\<close> return.
\<close>

record sheet_model =
  get_sheet_name :: string
  get_field_map :: "(string, string) dict"
  model_dump :: "(string, pyval) dict"

text \<open>
  A \<open>SheetModel\<close> subclass, as the adapters use it.

  \<^item> \<open>cls_get_field_map\<close> is the result of the call \<open>cls.get_field_map()\<close> on the class itself.
    The base class declares \<open>get_field_map(self)\<close> as an instance method, so the call on the
    class fails with \<open>TypeError\<close> (the argument \<open>self\<close> is missing): that is \<open>None\<close> here. A
    subclass that overrides it as a classmethod (as \<open>User\<close> and \<open>Product\<close> of
    examples/demo\_gsheet.py do) returns its dict: \<open>Some field_map\<close>.
  \<^item> \<open>get_class_sheet_name\<close> is the class attribute \<open>sheet_name\<close>.
  \<^item> \<open>construct\<close> is the call \<open>model(**kwargs)\<close>: pydantic's validation of the keyword
    arguments, \<open>None\<close> when it raises. The validation rules belong to pydantic and to the
    subclass's field declarations, so they are a parameter.
\<close>

record model_class =
  get_class_sheet_name :: string
  cls_get_field_map :: "(string, string) dict option"
  construct :: "(string, pyval) dict \<Rightarrow> sheet_model option"

text \<open>\<open>SheetModel.generate_field_map\<close>: \<open>{v: k for k, v in cls.get_field_map().items()}\<close>.\<close>

definition generate_field_map :: "model_class \<Rightarrow> error + (string, string) dict" where
  "generate_field_map cls =
     (case cls_get_field_map cls of
        None \<Rightarrow> Inl TypeError
      | Some field_map \<Rightarrow> Inr (dict_of_items (map (\<lambda>(k, v). (v, k)) field_map)))"

text \<open>
  \<open>getattr(item, k, default)\<close> and \<open>setattr(item, k, v)\<close> on an instance, for names of data
  attributes: a declared field is read or assigned (pydantic does not validate on
  assignment by default); reading any other name gives the default, and assigning it
  raises \<open>ValueError\<close> (pydantic: object has no field). Methods, class variables such as
  \<open>sheet_name\<close> and private attributes are not fields and are not modelled as attribute
  names: the filters and the update data are taken to name data attributes.
\<close>

definition py_getattr :: "sheet_model \<Rightarrow> string \<Rightarrow> pyval \<Rightarrow> pyval" where
  "py_getattr item k dflt = dict_get (model_dump item) k dflt"

definition py_setattr :: "sheet_model \<Rightarrow> string \<Rightarrow> pyval \<Rightarrow> error + sheet_model" where
  "py_setattr item k v =
     (if k \<in> set (map fst (model_dump item))
      then Inr (item\<lparr>model_dump := dict_setitem k v (model_dump item)\<rparr>)
      else Inl ValueError)"

text \<open>\<open>all(getattr(item, k, None) == v for k, v in filters.items())\<close>.\<close>

definition matches :: "(string, pyval) dict \<Rightarrow> sheet_model \<Rightarrow> bool" where
  "matches filters item = list_all (\<lambda>(k, v). py_getattr item k PNone = v) filters"

text \<open>\<open>for k, v in update_data.items(): setattr(item, k, v)\<close>; the first failing assignment raises.\<close>

fun apply_update :: "sheet_model \<Rightarrow> (string, pyval) dict \<Rightarrow> error + sheet_model" where
  "apply_update item [] = Inr item"
| "apply_update item ((k, v) # rest) =
     (case py_setattr item k v of
        Inl e \<Rightarrow> Inl e
      | Inr item' \<Rightarrow> apply_update item' rest)"

section \<open>The delimited-text adapter (sheetdb/backends/csv.py)\<close>

text \<open>
  The csv codec and the file system are collaborators outside the repository. A file is
  the text of its complete records followed by the text of an incomplete last record, if
  any: text after the last line terminator, or a quoted cell left open.
  \<^item> \<open>csv_rows\<close> are the complete records, as \<open>csv.reader\<close> parses them: rows of text cells.
    \<open>csv.writer\<close> writes a row as a complete record, each cell as \<open>py_str\<close> of the value,
    and a row that was written is read back as the same list of cells.
  \<^item> \<open>csv_tail\<close> is the text of the incomplete last record, empty when the file ends with
    a complete record (as every file does that the adapter has written).
  What the csv module makes of an incomplete record is the module's own affair:
  \<open>parse_tail w t\<close> are the rows that \<open>csv.reader\<close> yields for the text \<open>t\<close> at the end of a
  file, and \<open>append_tail w t cells\<close> are the complete rows, and the text left incomplete,
  that \<open>t\<close> becomes when \<open>writer.writerow(cells)\<close> is appended to it.
  \<open>files w p = None\<close> says that no file exists at path \<open>p\<close>. \<open>cache_headers\<close> is the
  module-level dict of that name, keyed by file path.
\<close>

record csv_file =
  csv_rows :: "string list list"
  csv_tail :: string

record csv_world =
  cache_headers :: "string \<rightharpoonup> string list"
  files :: "string \<rightharpoonup> csv_file"
  parse_tail :: "string \<Rightarrow> string list list"
  append_tail :: "string \<Rightarrow> string list \<Rightarrow> string list list \<times> string"

text \<open>A file that ends with a complete record.\<close>

abbreviation complete :: "string list list \<Rightarrow> csv_file" where
  "complete rs \<equiv> \<lparr>csv_rows = rs, csv_tail = []\<rparr>"

text \<open>The rows that \<open>csv.reader\<close> yields for a file.\<close>

definition csv_reader :: "csv_world \<Rightarrow> csv_file \<Rightarrow> string list list" where
  "csv_reader w f = csv_rows f @ (if csv_tail f = [] then [] else parse_tail w (csv_tail f))"

text \<open>\<open>CsvDB._get_headers\<close>; \<open>next(reader, [])\<close> is the first row, or \<open>[]\<close> for a file without rows.\<close>

definition CsvDB_get_headers :: "string \<Rightarrow> csv_world \<Rightarrow> string list \<times> csv_world" where
  "CsvDB_get_headers file_path w =
     (case cache_headers w file_path of
        Some hs \<Rightarrow> (hs, w)
      | None \<Rightarrow>
         (case files w file_path of
            None \<Rightarrow> ([], w)
          | Some f \<Rightarrow>
             (let headers = (case csv_reader w f of [] \<Rightarrow> [] | h # _ \<Rightarrow> h)
              in (headers, w\<lparr>cache_headers := (cache_headers w)(file_path \<mapsto> headers)\<rparr>))))"

text \<open>\<open>CsvDB._write_rows\<close>: mode \<open>"w"\<close> replaces the file by the header row and the rows.\<close>

definition CsvDB_write_rows :: "string \<Rightarrow> string list \<Rightarrow> pyval list list \<Rightarrow> csv_world \<Rightarrow> csv_world" where
  "CsvDB_write_rows file_path headers rows w =
     w\<lparr>files := (files w)(file_path \<mapsto> complete (headers # map (map py_str) rows))\<rparr>"

text \<open>
  \<open>CsvDB._append_row\<close>: mode \<open>"a"\<close> creates the file when it is missing and writes at its
  end otherwise. After a complete record the row is a record of its own; after an
  incomplete one its text continues that record.
\<close>

definition CsvDB_append_row :: "string \<Rightarrow> pyval list \<Rightarrow> csv_world \<Rightarrow> csv_world" where
  "CsvDB_append_row file_path row w =
     (let cells = map py_str row
      in w\<lparr>files := (files w)(file_path \<mapsto>
           (case files w file_path of
              None \<Rightarrow> complete [cells]
            | Some f \<Rightarrow>
               (if csv_tail f = [] then complete (csv_rows f @ [cells])
                else (let (rs, t) = append_tail w (csv_tail f) cells
                      in \<lparr>csv_rows = csv_rows f @ rs, csv_tail = t\<rparr>))))\<rparr>)"

text \<open>One element of \<open>mapped_rows\<close>: \<open>{field_map.get(k, k): v for k, v in model.model_dump().items()}\<close>.\<close>

definition mapped_row :: "(string, string) dict \<Rightarrow> sheet_model \<Rightarrow> (string, pyval) dict" where
  "mapped_row field_map model =
     dict_of_items (map (\<lambda>(k, v). (dict_get field_map k k, v)) (model_dump model))"

text \<open>\<open>[row.get(h, "") for h in headers]\<close>.\<close>

definition row_values :: "string list \<Rightarrow> (string, pyval) dict \<Rightarrow> pyval list" where
  "row_values headers row = map (\<lambda>h. dict_get row h (PStr '''')) headers"

text \<open>\<open>CsvDB.insert_many\<close>. It returns nothing; the result is the world it leaves.\<close>

definition CsvDB_insert_many :: "string \<Rightarrow> sheet_model list \<Rightarrow> csv_world \<Rightarrow> csv_world" where
  "CsvDB_insert_many file_path models w =
     (case models of
        [] \<Rightarrow> w
      | m0 # _ \<Rightarrow>
         (let field_map = get_field_map m0;
              mapped_rows = map (mapped_row field_map) models;
              (headers0, w1) = CsvDB_get_headers file_path w;
              (headers, w2) =
                 (if headers0 = [] then
                    (let headers = map fst (mapped_row field_map m0)
                     in (headers,
                         CsvDB_write_rows file_path headers []
                           (w1\<lparr>cache_headers := (cache_headers w1)(file_path \<mapsto> headers)\<rparr>)))
                  else (headers0, w1))
          in foldl (\<lambda>w' row. CsvDB_append_row file_path (row_values headers row) w') w2 mapped_rows))"

definition CsvDB_insert :: "string \<Rightarrow> sheet_model \<Rightarrow> csv_world \<Rightarrow> csv_world" where
  "CsvDB_insert file_path model w = CsvDB_insert_many file_path [model] w"

text \<open>
  One step of \<open>csv.DictReader\<close>: \<open>dict(zip(fieldnames, row))\<close>; a row longer than the field
  names stores its tail under the key \<open>None\<close> (\<open>restkey\<close>), a shorter row gives the missing
  field names the value \<open>None\<close> (\<open>restval\<close>). The second component says whether the key
  \<open>None\<close> is present.
\<close>

definition DictReader_row :: "string list \<Rightarrow> string list \<Rightarrow> (string, pyval) dict \<times> bool" where
  "DictReader_row fieldnames row =
     (let d = dict_of_items (zip fieldnames (map PStr row))
      in if length fieldnames < length row then (d, True)
         else (foldl (\<lambda>d' key. dict_setitem key PNone d') d (drop (length row) fieldnames), False))"

text \<open>
  The body of the loop of \<open>CsvDB.get_all\<close> for one row: the keys are mapped back through the
  reversed field map and the model is constructed. With the key \<open>None\<close> among the keyword
  arguments the call raises \<open>TypeError\<close> (keywords must be strings); that and a validation
  error are caught by \<open>except Exception\<close>, and the row is skipped.
\<close>

definition parse_row :: "model_class \<Rightarrow> (string, string) dict \<Rightarrow> string list \<Rightarrow> string list \<Rightarrow> sheet_model option" where
  "parse_row model field_map fieldnames row =
     (let (d, restkey) = DictReader_row fieldnames row;
          mapped_data = dict_of_items (map (\<lambda>(k, v). (dict_get field_map k k, v)) d)
      in if restkey then None else construct model mapped_data)"

text \<open>The loop \<open>for row in reader\<close>; \<open>DictReader\<close> passes over the rows that are \<open>[]\<close>.\<close>

fun get_all_loop ::
  "model_class \<Rightarrow> (string, string) dict \<Rightarrow> (string, pyval) dict option \<Rightarrow> string list \<Rightarrow>
   string list list \<Rightarrow> sheet_model list" where
  "get_all_loop model field_map filters fieldnames [] = []"
| "get_all_loop model field_map filters fieldnames (row # rest) =
     (if row = [] then get_all_loop model field_map filters fieldnames rest
      else
        (case parse_row model field_map fieldnames row of
           None \<Rightarrow> get_all_loop model field_map filters fieldnames rest
         | Some item \<Rightarrow>
            (case filters of
               None \<Rightarrow> item # get_all_loop model field_map filters fieldnames rest
             | Some f \<Rightarrow>
                (if f \<noteq> [] then
                   (if matches f item
                    then item # get_all_loop model field_map filters fieldnames rest
                    else get_all_loop model field_map filters fieldnames rest)
                 else item # get_all_loop model field_map filters fieldnames rest))))"

text \<open>\<open>CsvDB.get_all\<close>. The first row of the file is the reader's \<open>fieldnames\<close>.\<close>

definition CsvDB_get_all ::
  "string \<Rightarrow> model_class \<Rightarrow> (string, pyval) dict option \<Rightarrow> csv_world \<Rightarrow> error + sheet_model list" where
  "CsvDB_get_all file_path model filters w =
     (case files w file_path of
        None \<Rightarrow> Inr []
      | Some f \<Rightarrow>
         (case generate_field_map model of
            Inl e \<Rightarrow> Inl e
          | Inr field_map \<Rightarrow>
             (case csv_reader w f of
                [] \<Rightarrow> Inr []
              | fieldnames # data_rows \<Rightarrow>
                 Inr (get_all_loop model field_map filters fieldnames data_rows))))"

text \<open>The loop of \<open>CsvDB.get_one\<close>: the first item that matches is returned.\<close>

fun first_match :: "(string, pyval) dict \<Rightarrow> sheet_model list \<Rightarrow> sheet_model option" where
  "first_match filters [] = None"
| "first_match filters (item # rest) =
     (if matches filters item then Some item else first_match filters rest)"

definition CsvDB_get_one ::
  "string \<Rightarrow> model_class \<Rightarrow> (string, pyval) dict \<Rightarrow> csv_world \<Rightarrow> error + sheet_model" where
  "CsvDB_get_one file_path model filters w =
     (case CsvDB_get_all file_path model None w of
        Inl e \<Rightarrow> Inl e
      | Inr data \<Rightarrow>
         (case first_match filters data of
            None \<Rightarrow> Inl NotFoundError
          | Some item \<Rightarrow> Inr item))"

text \<open>
  The rows that \<open>update\<close> and \<open>delete\<close> write back:
  \<open>[[getattr(item, model.generate_field_map().get(h, h), "") for h in headers] for item in data]\<close>.
  \<open>generate_field_map\<close> is called once for each cell, so not at all without items or headers.
\<close>

definition item_rows ::
  "model_class \<Rightarrow> string list \<Rightarrow> sheet_model list \<Rightarrow> error + pyval list list" where
  "item_rows model headers data =
     (if data = [] \<or> headers = [] then Inr (map (\<lambda>item. []) data)
      else
        (case generate_field_map model of
           Inl e \<Rightarrow> Inl e
         | Inr field_map \<Rightarrow>
            Inr (map (\<lambda>item. map (\<lambda>h. py_getattr item (dict_get field_map h h) (PStr '''')) headers) data)))"

text \<open>
  The loop of \<open>CsvDB.update\<close>: the first matching item is assigned the update data, in place
  in the list \<open>data\<close>, and the loop breaks. The result is the list and the updated item;
  \<open>Inr None\<close> when the loop ends with \<open>updated\<close> still false.
\<close>

fun update_loop ::
  "(string, pyval) dict \<Rightarrow> (string, pyval) dict \<Rightarrow> sheet_model list \<Rightarrow>
   error + (sheet_model list \<times> sheet_model) option" where
  "update_loop filters update_data [] = Inr None"
| "update_loop filters update_data (item # rest) =
     (if matches filters item then
        (case apply_update item update_data of
           Inl e \<Rightarrow> Inl e
         | Inr item' \<Rightarrow> Inr (Some (item' # rest, item')))
      else
        (case update_loop filters update_data rest of
           Inl e \<Rightarrow> Inl e
         | Inr None \<Rightarrow> Inr None
         | Inr (Some (rest', item')) \<Rightarrow> Inr (Some (item # rest', item'))))"

text \<open>\<open>CsvDB.update\<close>. The world is returned with the result, also when the call raises.\<close>

definition CsvDB_update ::
  "string \<Rightarrow> model_class \<Rightarrow> (string, pyval) dict \<Rightarrow> (string, pyval) dict \<Rightarrow> csv_world \<Rightarrow>
   (error + sheet_model) \<times> csv_world" where
  "CsvDB_update file_path model filters update_data w =
     (case CsvDB_get_all file_path model None w of
        Inl e \<Rightarrow> (Inl e, w)
      | Inr data \<Rightarrow>
         (case update_loop filters update_data data of
            Inl e \<Rightarrow> (Inl e, w)
          | Inr None \<Rightarrow> (Inl NotFoundError, w)
          | Inr (Some (data', item)) \<Rightarrow>
             (let (headers, w1) = CsvDB_get_headers file_path w
              in (case item_rows model headers data' of
                    Inl e \<Rightarrow> (Inl e, w1)
                  | Inr rows \<Rightarrow> (Inr item, CsvDB_write_rows file_path headers rows w1)))))"

text \<open>
  The loop of \<open>CsvDB.delete\<close>, on the pair \<open>(new_data, deleted_item)\<close>: a matching item is
  stored in \<open>deleted_item\<close> and the loop continues; any other item is appended to \<open>new_data\<close>.
\<close>

fun delete_loop ::
  "(string, pyval) dict \<Rightarrow> sheet_model list \<Rightarrow> sheet_model list \<times> sheet_model option \<Rightarrow>
   sheet_model list \<times> sheet_model option" where
  "delete_loop filters [] acc = acc"
| "delete_loop filters (item # rest) (new_data, deleted_item) =
     (if matches filters item
      then delete_loop filters rest (new_data, Some item)
      else delete_loop filters rest (new_data @ [item], deleted_item))"

text \<open>\<open>CsvDB.delete\<close>. An instance is truthy, so \<open>not deleted_item\<close> holds exactly for \<open>None\<close>.\<close>

definition CsvDB_delete ::
  "string \<Rightarrow> model_class \<Rightarrow> (string, pyval) dict \<Rightarrow> csv_world \<Rightarrow> (error + sheet_model) \<times> csv_world" where
  "CsvDB_delete file_path model filters w =
     (case CsvDB_get_all file_path model None w of
        Inl e \<Rightarrow> (Inl e, w)
      | Inr data \<Rightarrow>
         (case delete_loop filters data ([], None) of
            (new_data, None) \<Rightarrow> (Inl NotFoundError, w)
          | (new_data, Some deleted_item) \<Rightarrow>
             (let (headers, w1) = CsvDB_get_headers file_path w
              in (case item_rows model headers new_data of
                    Inl e \<Rightarrow> (Inl e, w1)
                  | Inr rows \<Rightarrow> (Inr deleted_item, CsvDB_write_rows file_path headers rows w1)))))"

text \<open>\<open>CsvDB.delete_all\<close>.\<close>

definition CsvDB_delete_all :: "string \<Rightarrow> csv_world \<Rightarrow> csv_world" where
  "CsvDB_delete_all file_path w =
     (let (headers, w1) = CsvDB_get_headers file_path w
      in if headers \<noteq> [] then CsvDB_write_rows file_path headers [] w1 else w1)"

text \<open>
  Predicates on the state of the delimited-text adapter. \<open>file_headers\<close> is the header
  row of the file at a path: the first row read from it, and \<open>[]\<close> (unset) for a missing
  file and for a file without rows. The header cache is coherent with the file at a path
  when an entry for the path, if there is one, is the header row of the file. The file at
  a path is complete when it is missing or ends with a complete record. The adapter's own
  writes keep a complete file complete and the cache coherent with it; only a change of
  the file from outside the process breaks either.
\<close>

definition file_headers :: "csv_world \<Rightarrow> string \<Rightarrow> string list" where
  "file_headers w file_path =
     (case files w file_path of
        None \<Rightarrow> []
      | Some f \<Rightarrow> (case csv_reader w f of [] \<Rightarrow> [] | h # _ \<Rightarrow> h))"

definition cache_coherent :: "string \<Rightarrow> csv_world \<Rightarrow> bool" where
  "cache_coherent file_path w =
     (case cache_headers w file_path of
        None \<Rightarrow> True
      | Some hs \<Rightarrow> hs = file_headers w file_path)"

definition file_complete :: "string \<Rightarrow> csv_world \<Rightarrow> bool" where
  "file_complete file_path w =
     (case files w file_path of None \<Rightarrow> True | Some f \<Rightarrow> csv_tail f = [])"

text \<open>The complete records of the file at a path; none for a missing file.\<close>

definition stored_rows :: "csv_world \<Rightarrow> string \<Rightarrow> string list list" where
  "stored_rows w file_path = (case files w file_path of None \<Rightarrow> [] | Some f \<Rightarrow> csv_rows f)"

section \<open>The remote spreadsheet adapter (src/backends/gsheet.py)\<close>

text \<open>
  The gspread client and the service are collaborators outside the repository. The
  spreadsheet with the adapter's \<open>spreadsheet_id\<close> is a map from worksheet titles to what
  \<open>get_all_values()\<close> returns for the worksheet: its rows of text cells, the header row
  first. \<open>client\<close> says whether \<open>self._client\<close> is set; \<open>gsheet_cache_headers\<close> is the
  module-level dict \<open>cache_headers\<close> of gsheet.py, keyed by sheet name. Authorisation and
  the network calls are taken to succeed, but for the clearing of a range:
  \<open>batch_clear s num_cols n rows\<close> is the answer of the service when a worksheet holding
  \<open>rows\<close> is asked to clear the range \<open>A2:<column><n>\<close> whose column letter is
  \<open>chr(65 + num_cols - 1)\<close>: the rows the worksheet holds afterwards, or the \<open>APIError\<close>
  that gspread raises when the service refuses the range.
\<close>

record gsheet_world =
  gsheet_cache_headers :: "string \<rightharpoonup> string list"
  client :: bool
  worksheets :: "string \<rightharpoonup> string list list"
  batch_clear :: "nat \<Rightarrow> nat \<Rightarrow> string list list \<Rightarrow> error + string list list"

text \<open>
  \<open>GoogleSheetDB._get_worksheet\<close>: \<open>WorksheetNotFound\<close> without headers raises \<open>ValueError\<close>;
  with headers the worksheet is added, and the header row is appended and cached.
\<close>

definition GoogleSheetDB_get_worksheet ::
  "string \<Rightarrow> string list option \<Rightarrow> gsheet_world \<Rightarrow> (error + unit) \<times> gsheet_world" where
  "GoogleSheetDB_get_worksheet sheet_name headers s =
     (let s1 = s\<lparr>client := True\<rparr>
      in case worksheets s1 sheet_name of
           Some rows \<Rightarrow> (Inr (), s1)
         | None \<Rightarrow>
            (case headers of
               None \<Rightarrow> (Inl ValueError, s1)
             | Some hs \<Rightarrow>
                (Inr (), s1\<lparr>worksheets := (worksheets s1)(sheet_name \<mapsto> [hs]),
                            gsheet_cache_headers := (gsheet_cache_headers s1)(sheet_name \<mapsto> hs)\<rparr>)))"

text \<open>\<open>GoogleSheetDB._get_headers\<close>; \<open>ws.row_values(1)\<close> is the first row, \<open>[]\<close> on an empty sheet.\<close>

definition GoogleSheetDB_get_headers :: "string \<Rightarrow> gsheet_world \<Rightarrow> string list \<times> gsheet_world" where
  "GoogleSheetDB_get_headers sheet_name s =
     (case gsheet_cache_headers s sheet_name of
        Some hs \<Rightarrow> (hs, s)
      | None \<Rightarrow>
         (let headers = (case worksheets s sheet_name of Some (h # _) \<Rightarrow> h | _ \<Rightarrow> [])
          in (headers, s\<lparr>gsheet_cache_headers := (gsheet_cache_headers s)(sheet_name \<mapsto> headers)\<rparr>)))"

text \<open>\<open>GoogleSheetDB.insert_many\<close>; \<open>ws.append_rows(values)\<close> adds the rows below the table.\<close>

definition GoogleSheetDB_insert_many ::
  "sheet_model list \<Rightarrow> gsheet_world \<Rightarrow> (error + unit) \<times> gsheet_world" where
  "GoogleSheetDB_insert_many models s =
     (case models of
        [] \<Rightarrow> (Inr (), s)
      | m0 # _ \<Rightarrow>
         (let sheet_name = get_sheet_name m0;
              field_map = get_field_map m0;
              mapped_rows = map (mapped_row field_map) models;
              (r, s1) = GoogleSheetDB_get_worksheet sheet_name
                          (Some (map fst (mapped_row field_map m0))) s
          in case r of
               Inl e \<Rightarrow> (Inl e, s1)
             | Inr ws \<Rightarrow>
                (let (headers, s2) = GoogleSheetDB_get_headers sheet_name s1;
                     values = map (row_values headers) mapped_rows
                 in (Inr (),
                     s2\<lparr>worksheets := (worksheets s2)(sheet_name \<mapsto>
                          (case worksheets s2 sheet_name of None \<Rightarrow> [] | Some old \<Rightarrow> old)
                          @ map (map py_str) values)\<rparr>))))"

text \<open>
  The loop of \<open>GoogleSheetDB.get_all\<close> over the rows below the header:
  \<open>{field_map.get(header, header): value for header, value in zip(headers, row)}\<close>, the
  model constructed from it, and the filter.
\<close>

fun sheet_loop ::
  "model_class \<Rightarrow> (string, string) dict \<Rightarrow> (string, pyval) dict option \<Rightarrow> string list \<Rightarrow>
   string list list \<Rightarrow> sheet_model list" where
  "sheet_loop model field_map filters headers [] = []"
| "sheet_loop model field_map filters headers (row # rest) =
     (let model_data = dict_of_items
            (map (\<lambda>(header, value). (dict_get field_map header header, PStr value)) (zip headers row))
      in case construct model model_data of
           None \<Rightarrow> sheet_loop model field_map filters headers rest
         | Some item \<Rightarrow>
            (case filters of
               None \<Rightarrow> item # sheet_loop model field_map filters headers rest
             | Some f \<Rightarrow>
                (if f \<noteq> [] then
                   (if matches f item
                    then item # sheet_loop model field_map filters headers rest
                    else sheet_loop model field_map filters headers rest)
                 else item # sheet_loop model field_map filters headers rest)))"

text \<open>\<open>GoogleSheetDB.get_all\<close>; the world is returned with the result, also when the call raises.\<close>

definition GoogleSheetDB_get_all ::
  "model_class \<Rightarrow> (string, pyval) dict option \<Rightarrow> gsheet_world \<Rightarrow>
   (error + sheet_model list) \<times> gsheet_world" where
  "GoogleSheetDB_get_all model filters s =
     (let sheet_name = get_class_sheet_name model;
          (r, s1) = GoogleSheetDB_get_worksheet sheet_name None s
      in case r of
           Inl e \<Rightarrow> (Inl e, s1)
         | Inr ws \<Rightarrow>
            (let (headers, s2) = GoogleSheetDB_get_headers sheet_name s1;
                 rows = (case worksheets s2 sheet_name of None \<Rightarrow> [] | Some rs \<Rightarrow> rs)
             in case generate_field_map model of
                  Inl e \<Rightarrow> (Inl e, s2)
                | Inr field_map \<Rightarrow>
                   (Inr (sheet_loop model field_map filters headers (drop 1 rows)), s2)))"


section \<open>The local workbook adapter (sheetdb/backends/excel.py)\<close>

text \<open>
  openpyxl is a collaborator outside the repository. A worksheet is the list of its rows of
  cell values, the header row first; a workbook is the list of its named worksheets, in
  the order of \<open>workbook.sheetnames\<close>; \<open>Workbook()\<close> is a workbook with the one empty
  worksheet \<open>Sheet\<close>. \<open>workbook_files\<close> are the saved workbooks by path, \<open>loaded_workbook\<close>
  is \<open>self._workbook\<close>, and \<open>excel_cache_headers\<close> is the module-level dict \<open>cache_headers\<close>
  of excel.py, keyed by sheet name.
\<close>

type_synonym worksheet = "pyval list list"

type_synonym workbook = "(string \<times> worksheet) list"

record excel_world =
  excel_cache_headers :: "string \<rightharpoonup> pyval list"
  workbook_files :: "string \<rightharpoonup> workbook"
  loaded_workbook :: "workbook option"

text \<open>\<open>ExcelDB._get_workbook\<close>: on \<open>FileNotFoundError\<close> a new workbook is made and saved.\<close>

definition ExcelDB_get_workbook :: "string \<Rightarrow> excel_world \<Rightarrow> workbook \<times> excel_world" where
  "ExcelDB_get_workbook file_path s =
     (case loaded_workbook s of
        Some wb \<Rightarrow> (wb, s)
      | None \<Rightarrow>
         (case workbook_files s file_path of
            Some wb \<Rightarrow> (wb, s\<lparr>loaded_workbook := Some wb\<rparr>)
          | None \<Rightarrow>
             (let wb = [(''Sheet'', [])]
              in (wb, s\<lparr>loaded_workbook := Some wb,
                         workbook_files := (workbook_files s)(file_path \<mapsto> wb)\<rparr>))))"

text \<open>
  \<open>ExcelDB._get_worksheet\<close>. The workbook object is the one held in \<open>self._workbook\<close>, so the
  sheet created in it shows there and, after \<open>save\<close>, in the file.
\<close>

definition ExcelDB_get_worksheet ::
  "string \<Rightarrow> workbook \<Rightarrow> string \<Rightarrow> string list option \<Rightarrow> excel_world \<Rightarrow>
   (error + worksheet) \<times> excel_world" where
  "ExcelDB_get_worksheet file_path workbook sheet_name headers s =
     (if sheet_name \<notin> set (map fst workbook) then
        (case headers of
           None \<Rightarrow> (Inl ValueError, s)
         | Some hs \<Rightarrow>
            (let ws = [map PStr hs];
                 workbook' = workbook @ [(sheet_name, ws)]
             in (Inr ws,
                 s\<lparr>loaded_workbook := Some workbook',
                   excel_cache_headers := (excel_cache_headers s)(sheet_name \<mapsto> map PStr hs),
                   workbook_files := (workbook_files s)(file_path \<mapsto> workbook')\<rparr>)))
      else (Inr (dict_get workbook sheet_name []), s))"

text \<open>
  \<open>ExcelDB._get_headers\<close>; \<open>[cell.value for cell in ws[1]]\<close> is the first row, and the one
  empty cell \<open>A1\<close> on a worksheet without cells.
\<close>

definition ExcelDB_get_headers :: "worksheet \<Rightarrow> string \<Rightarrow> excel_world \<Rightarrow> pyval list \<times> excel_world" where
  "ExcelDB_get_headers ws sheet_name s =
     (case excel_cache_headers s sheet_name of
        Some hs \<Rightarrow> (hs, s)
      | None \<Rightarrow>
         (let headers = (case ws of [] \<Rightarrow> [PNone] | r # _ \<Rightarrow> r)
          in (headers, s\<lparr>excel_cache_headers := (excel_cache_headers s)(sheet_name \<mapsto> headers)\<rparr>)))"

text \<open>
  The filter loop of \<open>ExcelDB.get_all\<close>: \<open>match\<close> becomes false, and the loop breaks, at the
  first filter key whose attribute differs.
\<close>

fun excel_match :: "sheet_model \<Rightarrow> (string, pyval) dict \<Rightarrow> bool" where
  "excel_match item [] = True"
| "excel_match item ((key, value) # rest) =
     (if py_getattr item key PNone \<noteq> value then False else excel_match item rest)"

text \<open>
  The keyword arguments of \<open>model(**model_data)\<close>: a header cell that is not a string is a
  key that is not a string, and the call raises \<open>TypeError\<close> (\<open>None\<close> here).
\<close>

fun excel_kwargs :: "(pyval, pyval) dict \<Rightarrow> (string, pyval) dict option" where
  "excel_kwargs [] = Some []"
| "excel_kwargs ((PStr k, v) # rest) =
     (case excel_kwargs rest of None \<Rightarrow> None | Some kw \<Rightarrow> Some ((k, v) # kw))"
| "excel_kwargs (_ # rest) = None"

text \<open>The loop of \<open>ExcelDB.get_all\<close> over the rows below the header.\<close>

fun excel_loop ::
  "model_class \<Rightarrow> (string, string) dict \<Rightarrow> (string, pyval) dict option \<Rightarrow> pyval list \<Rightarrow>
   pyval list list \<Rightarrow> sheet_model list" where
  "excel_loop model field_map filters headers [] = []"
| "excel_loop model field_map filters headers (row # rest) =
     (let model_data = dict_of_items
            (map (\<lambda>(header, value).
                    ((case header of PStr h \<Rightarrow> PStr (dict_get field_map h h) | _ \<Rightarrow> header), value))
                 (zip headers row))
      in case (case excel_kwargs model_data of None \<Rightarrow> None | Some kw \<Rightarrow> construct model kw) of
           None \<Rightarrow> excel_loop model field_map filters headers rest
         | Some item \<Rightarrow>
            (case filters of
               None \<Rightarrow> item # excel_loop model field_map filters headers rest
             | Some f \<Rightarrow>
                (if f \<noteq> [] then
                   (if excel_match item f
                    then item # excel_loop model field_map filters headers rest
                    else excel_loop model field_map filters headers rest)
                 else item # excel_loop model field_map filters headers rest)))"

text \<open>\<open>ExcelDB.get_all\<close>; \<open>iter_rows(min_row=2, values_only=True)\<close> are the rows below the first.\<close>

definition ExcelDB_get_all ::
  "string \<Rightarrow> model_class \<Rightarrow> (string, pyval) dict option \<Rightarrow> excel_world \<Rightarrow>
   (error + sheet_model list) \<times> excel_world" where
  "ExcelDB_get_all file_path model filters s =
     (let (workbook, s1) = ExcelDB_get_workbook file_path s;
          sheet_name = get_class_sheet_name model;
          (r, s2) = ExcelDB_get_worksheet file_path workbook sheet_name None s1
      in case r of
           Inl e \<Rightarrow> (Inl e, s2)
         | Inr ws \<Rightarrow>
            (let (headers, s3) = ExcelDB_get_headers ws sheet_name s2;
                 rows = drop 1 ws
             in case generate_field_map model of
                  Inl e \<Rightarrow> (Inl e, s3)
                | Inr field_map \<Rightarrow> (Inr (excel_loop model field_map filters headers rows), s3)))"

section \<open>A concrete model class\<close>

text \<open>
  The examples below use a subclass in the style of \<open>User\<close> of examples/demo\_gsheet.py
  whose declared fields all have type \<open>str\<close>:
  \<^verbatim>\<open>
  class Contact(SheetModel):
      sheet_name: ClassVar[str] = "Contacts"
      name: str
      email: str
      @classmethod
      def get_field_map(cls):
          return {"name": "Full Name", "email": "Email Address"}
  \<close>
  For such a class pydantic accepts the keyword arguments when every declared field is
  given a string, and ignores the other keywords.
\<close>

definition str_model :: "string \<Rightarrow> string list \<Rightarrow> (string, string) dict \<Rightarrow> model_class" where
  "str_model sheet field_names field_map =
     \<lparr>get_class_sheet_name = sheet,
      cls_get_field_map = Some field_map,
      construct = (\<lambda>kwargs.
        if list_all (\<lambda>f. case map_of kwargs f of Some (PStr s) \<Rightarrow> True | _ \<Rightarrow> False) field_names
        then Some \<lparr>get_sheet_name = sheet, get_field_map = field_map,
                   model_dump = map (\<lambda>f. (f, dict_get kwargs f PNone)) field_names\<rparr>
        else None)\<rparr>"

definition Contact :: model_class where
  "Contact = str_model ''Contacts'' [''name'', ''email'']
               [(''name'', ''Full Name''), (''email'', ''Email Address'')]"

definition contact :: "string \<Rightarrow> string \<Rightarrow> sheet_model" where
  "contact n e =
     \<lparr>get_sheet_name = ''Contacts'',
      get_field_map = [(''name'', ''Full Name''), (''email'', ''Email Address'')],
      model_dump = [(''name'', PStr n), (''email'', PStr e)]\<rparr>"

text \<open>
  A subclass that keeps the method \<open>get_field_map(self)\<close> of \<open>SheetModel\<close> and gives its
  instances their field map through the private attribute that this method returns:
  \<^verbatim>\<open>
  class Note(SheetModel):
      sheet_name: ClassVar[str] = "Notes"
      title: str
      _field_map: Dict[str, str] = PrivateAttr(
          default_factory=lambda: {"title": "Title"})
  \<close>
\<close>

definition Note :: model_class where
  "Note = (str_model ''Notes'' [''title''] [(''title'', ''Title'')])\<lparr>cls_get_field_map := None\<rparr>"

text \<open>
  What the csv module does with text and cells that hold no quote character, no line
  break and, in a cell, no delimiter: a row is written as its cells joined by the
  delimiter \<open>;\<close> and followed by the line terminator, and text is cut into cells at the
  delimiters. A row appended to such an incomplete record continues its last cell.
\<close>

fun split_cells :: "string \<Rightarrow> string list" where
  "split_cells [] = [[]]"
| "split_cells (c # cs) =
     (if c = CHR '';'' then [] # split_cells cs
      else (case split_cells cs of [] \<Rightarrow> [[c]] | x # xs \<Rightarrow> (c # x) # xs))"

fun join_cells :: "string list \<Rightarrow> string" where
  "join_cells [] = []"
| "join_cells [c] = c"
| "join_cells (c # cs) = c @ CHR '';'' # join_cells cs"

definition plain_parse_tail :: "string \<Rightarrow> string list list" where
  "plain_parse_tail t = [split_cells t]"

definition plain_append_tail :: "string \<Rightarrow> string list \<Rightarrow> string list list \<times> string" where
  "plain_append_tail t cells = ([split_cells (t @ join_cells cells)], [])"

text \<open>
  The worlds of a fresh process: nothing stored, nothing cached, nothing loaded. The
  service of the remote world clears the range it is asked to clear.
\<close>

definition world0 :: csv_world where
  "world0 = \<lparr>cache_headers = Map.empty, files = Map.empty,
              parse_tail = plain_parse_tail, append_tail = plain_append_tail\<rparr>"

definition gsheet_world0 :: gsheet_world where
  "gsheet_world0 =
     \<lparr>gsheet_cache_headers = Map.empty, client = False, worksheets = Map.empty,
      batch_clear = (\<lambda>num_cols n rows. Inr (take 1 rows))\<rparr>"

definition excel_world0 :: excel_world where
  "excel_world0 =
     \<lparr>excel_cache_headers = Map.empty, workbook_files = Map.empty, loaded_workbook = None\<rparr>"

text \<open>A file of three contacts, two of them named Bob, and no cached header.\<close>

definition contacts_world :: csv_world where
  "contacts_world =
     world0\<lparr>files := [''contacts.csv'' \<mapsto>
                 complete [[''Full Name'', ''Email Address''],
                           [''Bob'', ''a@x.com''], [''Al'', ''c@x.com''], [''Bob'', ''b@x.com'']]]\<rparr>"

text \<open>A table with a header row of one column and no data row.\<close>

definition header_only_world :: csv_world where
  "header_only_world = world0\<lparr>files := [''contacts.csv'' \<mapsto> complete [[''Full Name'']]]\<rparr>"

text \<open>The header row of the contacts alone, in a file that ends with a complete line.\<close>

definition contacts_header_world :: csv_world where
  "contacts_header_world =
     world0\<lparr>files := [''contacts.csv'' \<mapsto> complete [[''Full Name'', ''Email Address'']]]\<rparr>"





section \<open>Facts about dictionaries\<close>

lemma dict_setitem_fresh: "k \<notin> fst ` set d \<Longrightarrow> dict_setitem k v d = d @ [(k, v)]"
  by (induction d) auto

lemma foldl_setitem_distinct:
  "distinct (map fst (acc @ kvs)) \<Longrightarrow>
   foldl (\<lambda>d (k, v). dict_setitem k v d) acc kvs = acc @ kvs"
proof (induction kvs arbitrary: acc)
  case Nil
  then show ?case by simp
next
  case (Cons kv kvs)
  obtain k v where kv: "kv = (k, v)" by (cases kv)
  from Cons.prems kv have fresh: "k \<notin> fst ` set acc" by auto
  from Cons.prems kv have "distinct (map fst ((acc @ [(k, v)]) @ kvs))" by auto
  from Cons.IH [OF this] fresh kv show ?case
    by (simp add: dict_setitem_fresh)
qed

lemma dict_of_items_distinct: "distinct (map fst kvs) \<Longrightarrow> dict_of_items kvs = kvs"
  using foldl_setitem_distinct [of "[]" kvs] by (simp add: dict_of_items_def)






lemma zip_fst_snd: "zip (map fst xs) (map (\<lambda>x. g (snd x)) xs) = map (\<lambda>(k, v). (k, g v)) xs"
  by (induction xs) auto

lemma map_keys_zip: "map (\<lambda>(k, v). (f k, v)) xs = zip (map f (map fst xs)) (map snd xs)"
  by (induction xs) auto

lemma dict_get_zip:
  "distinct ks \<Longrightarrow> length ks = length vs \<Longrightarrow> map (\<lambda>k. dict_get (zip ks vs) k d) ks = vs"
proof (induction ks arbitrary: vs)
  case Nil
  then show ?case by simp
next
  case (Cons k ks)
  then obtain v vs' where vs: "vs = v # vs'" by (cases vs) auto
  with Cons.prems have IH: "map (\<lambda>k. dict_get (zip ks vs') k d) ks = vs'"
    by (intro Cons.IH) auto
  have "map (\<lambda>x. dict_get ((k, v) # zip ks vs') x d) ks = map (\<lambda>x. dict_get (zip ks vs') x d) ks"
    using Cons.prems(1) by (intro map_cong) (auto simp: dict_get_def)
  with IH vs show ?case by (simp add: dict_get_def)
qed

lemma map_of_swap_distinct:
  assumes "distinct (map fst fm)" "distinct (map snd fm)"
  shows "map_of (map (\<lambda>(k, v). (v, k)) fm) h = Some k \<longleftrightarrow> map_of fm k = Some h"
proof -
  have d: "distinct (map fst (map (\<lambda>(k, v). (v, k)) fm))"
    using assms(2) by (simp add: comp_def case_prod_unfold)
  have "map_of (map (\<lambda>(k, v). (v, k)) fm) h = Some k \<longleftrightarrow> (h, k) \<in> set (map (\<lambda>(k, v). (v, k)) fm)"
    using d by (metis map_of_SomeD map_of_is_SomeI)
  also have "\<dots> \<longleftrightarrow> (k, h) \<in> set fm" by auto
  also have "\<dots> \<longleftrightarrow> map_of fm k = Some h"
    using assms(1) by (metis map_of_SomeD map_of_is_SomeI)
  finally show ?thesis .
qed

section \<open>Reading and writing complete files\<close>

lemma csv_reader_complete: "csv_reader w (complete rs) = rs"
  by (simp add: csv_reader_def)

lemma csv_reader_no_tail: "csv_tail f = [] \<Longrightarrow> csv_reader w f = csv_rows f"
  by (simp add: csv_reader_def)

section \<open>The concrete model class, evaluated\<close>

lemma Contact_rmap:
  "generate_field_map Contact = Inr [(''Full Name'', ''name''), (''Email Address'', ''email'')]"
  by (simp add: generate_field_map_def Contact_def str_model_def dict_of_items_def)

lemma Contact_parse_row:
  "parse_row Contact [(''Full Name'', ''name''), (''Email Address'', ''email'')]
     [''Full Name'', ''Email Address''] [n, e] = Some (contact n e)"
  by (simp add: parse_row_def DictReader_row_def dict_of_items_def dict_get_def
                Contact_def str_model_def contact_def)

lemma contacts_world_get_all:
  "CsvDB_get_all ''contacts.csv'' Contact None contacts_world =
     Inr [contact ''Bob'' ''a@x.com'', contact ''Al'' ''c@x.com'', contact ''Bob'' ''b@x.com'']"
  by (simp add: CsvDB_get_all_def contacts_world_def csv_reader_complete Contact_rmap
                Contact_parse_row)

lemma matches_contact_name:
  "matches [(''name'', PStr n)] (contact n' e) \<longleftrightarrow> n = n'"
  by (auto simp: matches_def py_getattr_def dict_get_def contact_def)

lemma contacts_world_headers:
  "CsvDB_get_headers ''contacts.csv'' contacts_world =
     ([''Full Name'', ''Email Address''],
      contacts_world\<lparr>cache_headers := [''contacts.csv'' \<mapsto> [''Full Name'', ''Email Address'']]\<rparr>)"
  by (simp add: CsvDB_get_headers_def contacts_world_def world0_def csv_reader_complete Let_def)

lemma Contact_item_rows:
  "item_rows Contact [''Full Name'', ''Email Address''] [contact n e] = Inr [[PStr n, PStr e]]"
  by (simp add: item_rows_def Contact_rmap py_getattr_def dict_get_def contact_def)

section \<open>The reversed field map\<close>

text \<open>
  For a model class that overrides \<open>get_field_map\<close> as a classmethod, and in whose field
  map no two fields have the same header, \<open>generate_field_map\<close> returns the inverse of the
  field map: a header is mapped to a field exactly when the field map sends that field to
  that header, and reverse-mapping the header of a mapped field gives the field back.
  (A dict has distinct keys, which is the first \<open>distinct\<close>.)
\<close>

lemma generate_field_map_classmethod:
  assumes "cls_get_field_map cls = Some field_map"
    and "distinct (map fst field_map)"
    and "distinct (map snd field_map)"
  shows "\<exists>rmap. generate_field_map cls = Inr rmap
           \<and> (\<forall>h k. map_of rmap h = Some k \<longleftrightarrow> map_of field_map k = Some h)
           \<and> (\<forall>k h. map_of field_map k = Some h \<longrightarrow> dict_get rmap (dict_get field_map k k) (dict_get field_map k k) = k)"
proof -
  let ?inv = "map (\<lambda>(k, v). (v, k)) field_map"
  have d: "distinct (map fst ?inv)"
    using assms(3) by (simp add: comp_def case_prod_unfold)
  have g: "generate_field_map cls = Inr ?inv"
    using assms(1) d by (simp add: generate_field_map_def dict_of_items_distinct)
  have inv: "\<forall>h k. map_of ?inv h = Some k \<longleftrightarrow> map_of field_map k = Some h"
    using map_of_swap_distinct [OF assms(2,3)] by blast
  have "dict_get ?inv (dict_get field_map k k) (dict_get field_map k k) = k"
    if "map_of field_map k = Some h" for k h
  proof -
    from that inv have "map_of ?inv h = Some k" by blast
    with that show ?thesis by (simp add: dict_get_def)
  qed
  with g inv show ?thesis by blast
qed

text \<open>
  Claim C2, at a class where it fails. The class \<open>Note\<close> keeps the method
  \<open>get_field_map(self)\<close> that \<open>SheetModel\<close> declares, and its instances have the field map
  \<open>{"title": "Title"}\<close>, in which no two fields have the same header. The classmethod
  \<open>generate_field_map\<close> calls \<open>cls.get_field_map()\<close> on the class, without an instance: the
  call raises \<open>TypeError\<close>, and no inverse \<open>{"Title": "title"}\<close> is returned.
\<close>

theorem generate_field_map_raises_TypeError:
  "construct Note [(''title'', PStr ''Milk'')]
     = Some \<lparr>get_sheet_name = ''Notes'', get_field_map = [(''title'', ''Title'')],
             model_dump = [(''title'', PStr ''Milk'')]\<rparr>
   \<and> generate_field_map Note = Inl TypeError"
  by (simp add: Note_def str_model_def generate_field_map_def dict_get_def)

section \<open>Scanning the table\<close>

lemma matches_Nil: "matches [] item"
  by (simp add: matches_def)

lemma get_all_loop_filter:
  "get_all_loop M fm (Some f) fn rows = filter (matches f) (get_all_loop M fm None fn rows)"
  by (induction rows) (auto simp: matches_Nil split: option.splits)

lemma first_match_filter:
  "first_match f xs = (case filter (matches f) xs of [] \<Rightarrow> None | x # _ \<Rightarrow> Some x)"
  by (induction xs) auto

lemma CsvDB_get_all_Some:
  "CsvDB_get_all fp M (Some f) w =
     (case CsvDB_get_all fp M None w of Inl e \<Rightarrow> Inl e | Inr data \<Rightarrow> Inr (filter (matches f) data))"
  by (simp add: CsvDB_get_all_def get_all_loop_filter split: option.splits sum.splits list.splits)

text \<open>
  Claim C7. Whenever \<open>get_all(model, filters)\<close> returns a non-empty list, \<open>get_one(model,
  filters)\<close> returns its first element, although \<open>get_one\<close> loads the records without a
  filter and scans them again.
\<close>

theorem get_one_is_first_of_get_all:
  assumes "CsvDB_get_all fp M (Some f) w = Inr (x # xs)"
  shows "CsvDB_get_one fp M f w = Inr x"
  using assms
  by (auto simp: CsvDB_get_one_def CsvDB_get_all_Some first_match_filter split: sum.splits)

text \<open>
  In the file of three contacts the filtered list for the name Bob starts with the first
  Bob, and that is the record \<open>get_one\<close> returns.
\<close>

theorem get_one_is_first_of_get_all_witness:
  "CsvDB_get_one ''contacts.csv'' Contact [(''name'', PStr ''Bob'')] contacts_world
     = Inr (contact ''Bob'' ''a@x.com'')"
proof -
  have "CsvDB_get_all ''contacts.csv'' Contact (Some [(''name'', PStr ''Bob'')]) contacts_world
          = Inr (contact ''Bob'' ''a@x.com'' # [contact ''Bob'' ''b@x.com''])"
    by (simp add: CsvDB_get_all_Some contacts_world_get_all matches_contact_name)
  then show ?thesis by (rule get_one_is_first_of_get_all)
qed

text \<open>
  \<open>get_one\<close> in terms of the unfiltered scan: \<open>NotFoundError\<close> without a match, the first
  match otherwise. A scan that returns a record has read a file and reversed the field map.
\<close>

lemma filter_no_match: "\<not> list_ex P xs \<Longrightarrow> filter P xs = []"
  by (induction xs) auto

lemma first_match_split:
  "\<not> list_ex (matches f) pre \<Longrightarrow> matches f x \<Longrightarrow> first_match f (pre @ x # post) = Some x"
  by (induction pre) auto

lemma CsvDB_get_one_not_found:
  "CsvDB_get_all fp M None w = Inr data \<Longrightarrow> \<not> list_ex (matches f) data \<Longrightarrow>
   CsvDB_get_one fp M f w = Inl NotFoundError"
  by (simp add: CsvDB_get_one_def first_match_filter filter_no_match)

lemma CsvDB_get_one_first_match:
  "CsvDB_get_all fp M None w = Inr (pre @ x # post) \<Longrightarrow> \<not> list_ex (matches f) pre \<Longrightarrow>
   matches f x \<Longrightarrow> CsvDB_get_one fp M f w = Inr x"
  by (simp add: CsvDB_get_one_def first_match_split)

lemma get_all_nonempty_field_map:
  "CsvDB_get_all fp M flt w = Inr (x # xs) \<Longrightarrow> \<exists>rmap. generate_field_map M = Inr rmap"
  by (auto simp: CsvDB_get_all_def split: option.splits sum.splits)

lemma get_all_nonempty_file:
  "CsvDB_get_all fp M flt w = Inr (x # xs) \<Longrightarrow> files w fp \<noteq> None"
  by (auto simp: CsvDB_get_all_def split: option.splits)


section \<open>Update and delete\<close>

lemma get_headers_cases:
  "CsvDB_get_headers fp w = (h0, w1) \<Longrightarrow>
     files w1 = files w \<and>
     (h0 \<noteq> [] \<longrightarrow> cache_headers w1 fp = Some h0) \<and>
     (\<forall>p. p \<noteq> fp \<longrightarrow> cache_headers w1 p = cache_headers w p)"
  by (auto simp: CsvDB_get_headers_def Let_def split: option.splits)

lemma get_headers_codec:
  "CsvDB_get_headers fp w = (h0, w1) \<Longrightarrow>
     parse_tail w1 = parse_tail w \<and> append_tail w1 = append_tail w"
  by (auto simp: CsvDB_get_headers_def Let_def split: option.splits)

lemma get_headers_coherent:
  "cache_coherent fp w \<Longrightarrow> CsvDB_get_headers fp w = (h0, w1) \<Longrightarrow> h0 = file_headers w fp"
  by (auto simp: CsvDB_get_headers_def cache_coherent_def file_headers_def Let_def
           split: option.splits list.splits)

lemma update_loop_no_match:
  "\<not> list_ex (matches f) data \<Longrightarrow> update_loop f upd data = Inr None"
  by (induction data) auto

lemma delete_loop_eq:
  "delete_loop f data (nd, d) =
     (nd @ filter (\<lambda>x. \<not> matches f x) data,
      (case rev (filter (matches f) data) of [] \<Rightarrow> d | x # _ \<Rightarrow> Some x))"
  by (induction data arbitrary: nd d) (auto split: list.splits)

text \<open>
  Claim C10. In the delimited-text adapter, when no record of the scan matches the
  filters, \<open>update\<close> and \<open>delete\<close> raise \<open>NotFoundError\<close> and leave the world as it was: the
  file (header row and data rows) and the header cache are those of before the call.
\<close>

theorem update_delete_not_found_atomic:
  assumes "CsvDB_get_all fp M None w = Inr data"
    and "\<not> list_ex (matches f) data"
  shows "CsvDB_update fp M f upd w = (Inl NotFoundError, w)
       \<and> CsvDB_delete fp M f w = (Inl NotFoundError, w)"
  using assms
  by (simp add: CsvDB_update_def CsvDB_delete_def update_loop_no_match delete_loop_eq filter_no_match)

text \<open>
  No contact of the file is named Zed: both calls raise and return the world unchanged.
\<close>

theorem update_delete_not_found_atomic_witness:
  "CsvDB_update ''contacts.csv'' Contact [(''name'', PStr ''Zed'')] [(''email'', PStr ''z@x.com'')] contacts_world
     = (Inl NotFoundError, contacts_world)
   \<and> CsvDB_delete ''contacts.csv'' Contact [(''name'', PStr ''Zed'')] contacts_world
     = (Inl NotFoundError, contacts_world)"
proof -
  have "\<not> list_ex (matches [(''name'', PStr ''Zed'')])
          [contact ''Bob'' ''a@x.com'', contact ''Al'' ''c@x.com'', contact ''Bob'' ''b@x.com'']"
    by (simp add: matches_contact_name)
  with contacts_world_get_all show ?thesis by (rule update_delete_not_found_atomic)
qed

text \<open>
  With a match, \<open>update\<close> assigns to the first matching record only and writes every
  scanned record back, each projected on the header row.
\<close>

lemma update_loop_first_match:
  "\<not> list_ex (matches f) pre \<Longrightarrow> matches f x \<Longrightarrow>
   update_loop f upd (pre @ x # post) =
     (case apply_update x upd of
        Inl e \<Rightarrow> Inl e
      | Inr x' \<Rightarrow> Inr (Some (pre @ x' # post, x')))"
  by (induction pre) (auto split: sum.splits)

lemma item_rows_defined:
  "generate_field_map M = Inr rmap \<Longrightarrow> \<exists>rows. item_rows M headers data = Inr rows"
  by (simp add: item_rows_def)

lemma CsvDB_update_first_match:
  assumes "CsvDB_get_all fp M None w = Inr (pre @ x # post)"
    and "\<not> list_ex (matches f) pre" and "matches f x"
    and "apply_update x upd = Inr x'"
    and "CsvDB_get_headers fp w = (h0, w1)"
  shows "\<exists>rows. item_rows M h0 (pre @ x' # post) = Inr rows
           \<and> CsvDB_update fp M f upd w = (Inr x', CsvDB_write_rows fp h0 rows w1)"
proof -
  obtain y ys where "pre @ x # post = y # ys" by (cases pre) auto
  with assms(1) get_all_nonempty_field_map [of fp M None w y ys]
  obtain rmap where r: "generate_field_map M = Inr rmap" by auto
  from item_rows_defined [OF r]
  obtain rows where rows: "item_rows M h0 (pre @ x' # post) = Inr rows"
    by blast
  with assms show ?thesis
    by (simp add: CsvDB_update_def update_loop_first_match)
qed

text \<open>
  With a match, \<open>CsvDB.delete\<close> goes on after it: the loop has no \<open>break\<close>, so every
  matching record is left out of the rows written back, and the record returned is the
  last match.
\<close>

lemma case_rev_last:
  "xs \<noteq> [] \<Longrightarrow> (case rev xs of [] \<Rightarrow> d | x # _ \<Rightarrow> Some x) = Some (last xs)"
  by (cases xs rule: rev_cases) auto

lemma CsvDB_delete_every_match:
  assumes "CsvDB_get_all fp M None w = Inr data"
    and "list_ex (matches f) data"
    and "CsvDB_get_headers fp w = (h0, w1)"
  shows "\<exists>rows. item_rows M h0 (filter (\<lambda>x. \<not> matches f x) data) = Inr rows
           \<and> CsvDB_delete fp M f w =
               (Inr (last (filter (matches f) data)), CsvDB_write_rows fp h0 rows w1)"
proof -
  from assms(2) obtain y ys where "data = y # ys" by (cases data) auto
  with assms(1) get_all_nonempty_field_map [of fp M None w y ys]
  obtain rmap where r: "generate_field_map M = Inr rmap" by auto
  from item_rows_defined [OF r]
  obtain rows where rows: "item_rows M h0 (filter (\<lambda>x. \<not> matches f x) data) = Inr rows"
    by blast
  from assms(2) have ne: "filter (matches f) data \<noteq> []"
    by (induction data) auto
  from assms rows show ?thesis
    by (simp add: CsvDB_delete_def delete_loop_eq case_rev_last [OF ne])
qed

text \<open>
  Whatever \<open>update\<close> or \<open>delete\<close> raises, the files are those of before the call.
\<close>

lemma update_failure_keeps_files:
  "fst (CsvDB_update fp M f upd w) = Inl e \<Longrightarrow> files (snd (CsvDB_update fp M f upd w)) = files w"
  by (cases "CsvDB_get_headers fp w")
     (auto simp: CsvDB_update_def dest: get_headers_cases split: sum.splits option.splits prod.splits)

lemma delete_failure_keeps_files:
  "fst (CsvDB_delete fp M f w) = Inl e \<Longrightarrow> files (snd (CsvDB_delete fp M f w)) = files w"
  by (cases "CsvDB_get_headers fp w")
     (auto simp: CsvDB_delete_def dest: get_headers_cases split: sum.splits option.splits prod.splits)

text \<open>
  Claim C1, at a file where it fails. The file holds three contacts, the first and the
  third named Bob. \<open>delete(Contact, {"name": "Bob"})\<close> leaves one data row: both Bobs are
  removed, not only the first, and the number of data rows drops from three to one.
\<close>

theorem CsvDB_delete_removes_every_match:
  "files contacts_world ''contacts.csv'' =
     Some (complete [[''Full Name'', ''Email Address''],
                     [''Bob'', ''a@x.com''], [''Al'', ''c@x.com''], [''Bob'', ''b@x.com'']])
   \<and> files (snd (CsvDB_delete ''contacts.csv'' Contact [(''name'', PStr ''Bob'')] contacts_world))
        ''contacts.csv''
     = Some (complete [[''Full Name'', ''Email Address''], [''Al'', ''c@x.com'']])"
  by (simp add: CsvDB_delete_def contacts_world_get_all matches_contact_name contacts_world_headers
                Contact_item_rows CsvDB_write_rows_def py_str_def)
     (simp add: contacts_world_def)

text \<open>
  Claim C4, at the same file. \<open>get_one\<close> resolves the filter to the first Bob, and
  \<open>delete\<close> returns the last Bob instead of the first.
\<close>

theorem CsvDB_delete_returns_last_match:
  "CsvDB_get_one ''contacts.csv'' Contact [(''name'', PStr ''Bob'')] contacts_world
     = Inr (contact ''Bob'' ''a@x.com'')
   \<and> fst (CsvDB_delete ''contacts.csv'' Contact [(''name'', PStr ''Bob'')] contacts_world)
     = Inr (contact ''Bob'' ''b@x.com'')"
  by (simp add: CsvDB_delete_def CsvDB_get_one_def contacts_world_get_all matches_contact_name
                contacts_world_headers Contact_item_rows)

section \<open>Insertion\<close>

text \<open>
  A row appended to a complete file is one more complete record. Rows appended to a file
  with an incomplete last record are what the csv module makes of the continued text.
\<close>

lemma append_row_files:
  "file_complete fp w \<Longrightarrow>
   files (CsvDB_append_row fp r w) = (files w)(fp \<mapsto> complete (stored_rows w fp @ [map py_str r]))"
  by (auto simp: CsvDB_append_row_def file_complete_def stored_rows_def split: option.splits)

lemma append_row_incomplete:
  "files w fp = Some f \<Longrightarrow> csv_tail f \<noteq> [] \<Longrightarrow>
   append_tail w (csv_tail f) (map py_str r) = (rs, t) \<Longrightarrow>
   files (CsvDB_append_row fp r w) = (files w)(fp \<mapsto> \<lparr>csv_rows = csv_rows f @ rs, csv_tail = t\<rparr>)"
  by (simp add: CsvDB_append_row_def)

lemma append_row_cache: "cache_headers (CsvDB_append_row fp r w) = cache_headers w"
  by (simp add: CsvDB_append_row_def Let_def)

lemma append_row_codec:
  "parse_tail (CsvDB_append_row fp r w) = parse_tail w"
  "append_tail (CsvDB_append_row fp r w) = append_tail w"
  by (simp_all add: CsvDB_append_row_def Let_def)

lemma append_rows_files:
  "file_complete fp w \<Longrightarrow>
   files (foldl (\<lambda>w' row. CsvDB_append_row fp (f row) w') w rows) =
     (if rows = [] then files w
      else (files w)(fp \<mapsto> complete (stored_rows w fp @ map (\<lambda>row. map py_str (f row)) rows)))"
proof (induction rows arbitrary: w)
  case Nil
  then show ?case by simp
next
  case (Cons row rows)
  let ?w = "CsvDB_append_row fp (f row) w"
  have c: "file_complete fp ?w"
    by (simp add: append_row_files [OF Cons.prems] file_complete_def)
  have s: "stored_rows ?w fp = stored_rows w fp @ [map py_str (f row)]"
    by (simp add: append_row_files [OF Cons.prems] stored_rows_def)
  show ?case
    by (auto simp add: Cons.IH [OF c] s append_row_files [OF Cons.prems] fun_eq_iff)
qed

lemma append_rows_cache:
  "cache_headers (foldl (\<lambda>w' row. CsvDB_append_row fp (f row) w') w rows) = cache_headers w"
  by (induction rows arbitrary: w) (simp_all add: append_row_cache)

lemma append_rows_codec:
  "parse_tail (foldl (\<lambda>w' row. CsvDB_append_row fp (f row) w') w rows) = parse_tail w"
  "append_tail (foldl (\<lambda>w' row. CsvDB_append_row fp (f row) w') w rows) = append_tail w"
  by (induction rows arbitrary: w) (simp_all add: append_row_codec)

lemma insert_many_files:
  assumes "CsvDB_get_headers fp w = (h0, w1)"
    and "h0 = [] \<or> file_complete fp w"
  shows "files (CsvDB_insert_many fp (m0 # rest) w) fp =
           Some (complete
                  ((if h0 = [] then [map fst (mapped_row (get_field_map m0) m0)]
                    else stored_rows w fp)
                   @ map (\<lambda>m. map py_str (row_values
                            (if h0 = [] then map fst (mapped_row (get_field_map m0) m0) else h0)
                            (mapped_row (get_field_map m0) m))) (m0 # rest)))"
proof (cases "h0 = []")
  case True
  let ?hdr = "map fst (mapped_row (get_field_map m0) m0)"
  let ?w2 = "CsvDB_write_rows fp ?hdr [] (w1\<lparr>cache_headers := (cache_headers w1)(fp \<mapsto> ?hdr)\<rparr>)"
  have c: "file_complete fp ?w2"
    by (simp add: CsvDB_write_rows_def file_complete_def)
  have s: "stored_rows ?w2 fp = [?hdr]"
    by (simp add: CsvDB_write_rows_def stored_rows_def)
  show ?thesis
    using assms(1) True
    by (simp add: CsvDB_insert_many_def Let_def append_rows_files [OF c] s comp_def
             del: foldl_Cons)
next
  case False
  with assms(2) have "file_complete fp w" by simp
  with get_headers_cases [OF assms(1)] have c: "file_complete fp w1"
    by (simp add: file_complete_def)
  have s: "stored_rows w1 fp = stored_rows w fp"
    using get_headers_cases [OF assms(1)] by (simp add: stored_rows_def)
  show ?thesis
    using assms(1) False
    by (simp add: CsvDB_insert_many_def Let_def append_rows_files [OF c] s comp_def
             del: foldl_Cons)
qed

lemma insert_many_cache:
  assumes "CsvDB_get_headers fp w = (h0, w1)"
  shows "cache_headers (CsvDB_insert_many fp (m0 # rest) w) fp =
           Some (if h0 = [] then map fst (mapped_row (get_field_map m0) m0) else h0)"
  using assms get_headers_cases [OF assms]
  by (simp add: CsvDB_insert_many_def Let_def append_rows_cache CsvDB_write_rows_def
           del: foldl_Cons)


lemma mapped_row_distinct:
  assumes "distinct (map (\<lambda>k. dict_get fm k k) (map fst (model_dump m)))"
  shows "mapped_row fm m = map (\<lambda>(k, v). (dict_get fm k k, v)) (model_dump m)"
proof -
  have "map fst (map (\<lambda>(k, v). (dict_get fm k k, v)) (model_dump m))
          = map (\<lambda>k. dict_get fm k k) (map fst (model_dump m))"
    by (simp add: comp_def case_prod_unfold)
  with assms have "distinct (map fst (map (\<lambda>(k, v). (dict_get fm k k, v)) (model_dump m)))"
    by metis
  then show ?thesis
    unfolding mapped_row_def by (rule dict_of_items_distinct)
qed



text \<open>
  Claim C9. \<open>insert_many\<close> with an empty list returns normally and changes nothing: in the
  delimited-text adapter the files and the header cache are as before, and in the remote
  spreadsheet adapter the worksheets, the header cache and the client are as before.
\<close>

theorem insert_many_empty_is_noop:
  "CsvDB_insert_many file_path [] w = w
   \<and> GoogleSheetDB_insert_many [] s = (Inr (), s)"
  by (simp add: CsvDB_insert_many_def GoogleSheetDB_insert_many_def)




section \<open>The header cache stays coherent\<close>

text \<open>
  Every operation of the delimited-text adapter keeps complete files complete, and keeps
  the header cache coherent with the files, at every path.
\<close>

lemma coherent_cong:
  "cache_headers w' p = cache_headers w p \<Longrightarrow> files w' p = files w p \<Longrightarrow>
   parse_tail w' = parse_tail w \<Longrightarrow> cache_coherent p w' = cache_coherent p w"
  by (simp add: cache_coherent_def file_headers_def csv_reader_def split: option.splits)

lemma get_headers_keeps_coherent:
  "cache_coherent p w \<Longrightarrow> CsvDB_get_headers fp w = (h0, w1) \<Longrightarrow> cache_coherent p w1"
  by (auto simp: CsvDB_get_headers_def cache_coherent_def file_headers_def csv_reader_def Let_def
           split: option.splits list.splits if_splits)

lemma get_headers_existing_file:
  "CsvDB_get_headers fp w = (h0, w1) \<Longrightarrow> files w fp \<noteq> None \<Longrightarrow> cache_headers w1 fp = Some h0"
  by (auto simp: CsvDB_get_headers_def Let_def split: option.splits)

lemma write_rows_coherent:
  assumes "cache_coherent p w1" and "cache_headers w1 fp = Some h0"
  shows "cache_coherent p (CsvDB_write_rows fp h0 rows w1)"
  using assms
  by (auto simp: cache_coherent_def CsvDB_write_rows_def file_headers_def csv_reader_def
           split: option.splits)

lemma write_rows_complete:
  "file_complete p w \<Longrightarrow> file_complete p (CsvDB_write_rows fp h rows w)"
  by (simp add: file_complete_def CsvDB_write_rows_def)

lemma get_headers_keeps_complete:
  "file_complete p w \<Longrightarrow> CsvDB_get_headers fp w = (h0, w1) \<Longrightarrow> file_complete p w1"
  by (auto simp: CsvDB_get_headers_def file_complete_def Let_def split: option.splits)

lemma delete_all_keeps_coherent:
  assumes "cache_coherent p w"
  shows "cache_coherent p (CsvDB_delete_all fp w)"
proof -
  obtain h0 w1 where g: "CsvDB_get_headers fp w = (h0, w1)" by (cases "CsvDB_get_headers fp w")
  note c1 = get_headers_keeps_coherent [OF assms g]
  show ?thesis
  proof (cases "h0 = []")
    case True
    with g c1 show ?thesis by (simp add: CsvDB_delete_all_def)
  next
    case False
    with get_headers_cases [OF g] have "cache_headers w1 fp = Some h0" by simp
    from write_rows_coherent [OF c1 this] g False show ?thesis
      by (simp add: CsvDB_delete_all_def)
  qed
qed

lemma delete_all_keeps_complete:
  assumes "file_complete p w"
  shows "file_complete p (CsvDB_delete_all fp w)"
proof -
  obtain h0 w1 where g: "CsvDB_get_headers fp w = (h0, w1)" by (cases "CsvDB_get_headers fp w")
  from get_headers_keeps_complete [OF assms g] g show ?thesis
    by (simp add: CsvDB_delete_all_def write_rows_complete)
qed

lemma update_loop_Some_nonempty:
  "update_loop f upd data = Inr (Some r) \<Longrightarrow> data \<noteq> []"
  by (cases data) auto

lemma update_keeps_coherent:
  assumes "cache_coherent p w"
  shows "cache_coherent p (snd (CsvDB_update fp M f upd w))"
proof (cases "CsvDB_get_all fp M None w")
  case (Inl e)
  with assms show ?thesis by (simp add: CsvDB_update_def)
next
  case (Inr data)
  show ?thesis
  proof (cases "update_loop f upd data")
    case (Inl e)
    with Inr assms show ?thesis by (simp add: CsvDB_update_def)
  next
    case r: (Inr res)
    show ?thesis
    proof (cases res)
      case None
      with Inr r assms show ?thesis by (simp add: CsvDB_update_def)
    next
      case (Some di)
      obtain data' item where di: "di = (data', item)" by (cases di)
      obtain h0 w1 where g: "CsvDB_get_headers fp w = (h0, w1)" by (cases "CsvDB_get_headers fp w")
      note c1 = get_headers_keeps_coherent [OF assms g]
      from update_loop_Some_nonempty r Some obtain x xs where "data = x # xs"
        by (cases data) auto
      with Inr have "files w fp \<noteq> None" by (auto dest: get_all_nonempty_file)
      from get_headers_existing_file [OF g this] have ch: "cache_headers w1 fp = Some h0" .
      show ?thesis
        using Inr r Some di g c1 write_rows_coherent [OF c1 ch]
        by (simp add: CsvDB_update_def split: sum.splits)
    qed
  qed
qed

lemma update_keeps_complete:
  assumes "file_complete p w"
  shows "file_complete p (snd (CsvDB_update fp M f upd w))"
proof -
  obtain h0 w1 where g: "CsvDB_get_headers fp w = (h0, w1)" by (cases "CsvDB_get_headers fp w")
  from get_headers_keeps_complete [OF assms g] g assms show ?thesis
    by (auto simp: CsvDB_update_def write_rows_complete split: sum.splits option.splits)
qed

lemma delete_keeps_coherent:
  assumes "cache_coherent p w"
  shows "cache_coherent p (snd (CsvDB_delete fp M f w))"
proof (cases "CsvDB_get_all fp M None w")
  case (Inl e)
  with assms show ?thesis by (simp add: CsvDB_delete_def)
next
  case (Inr data)
  show ?thesis
  proof (cases "list_ex (matches f) data")
    case False
    with Inr assms show ?thesis
      by (simp add: CsvDB_delete_def delete_loop_eq filter_no_match)
  next
    case True
    obtain h0 w1 where g: "CsvDB_get_headers fp w = (h0, w1)" by (cases "CsvDB_get_headers fp w")
    note c1 = get_headers_keeps_coherent [OF assms g]
    from True obtain x xs where "data = x # xs" by (cases data) auto
    with Inr have "files w fp \<noteq> None" by (auto dest: get_all_nonempty_file)
    from get_headers_existing_file [OF g this] have ch: "cache_headers w1 fp = Some h0" .
    from CsvDB_delete_every_match [OF Inr True g] write_rows_coherent [OF c1 ch]
    show ?thesis by auto
  qed
qed

lemma delete_keeps_complete:
  assumes "file_complete p w"
  shows "file_complete p (snd (CsvDB_delete fp M f w))"
proof -
  obtain h0 w1 where g: "CsvDB_get_headers fp w = (h0, w1)" by (cases "CsvDB_get_headers fp w")
  from get_headers_keeps_complete [OF assms g] g assms show ?thesis
    by (auto simp: CsvDB_delete_def write_rows_complete
             split: sum.splits option.splits prod.splits)
qed

lemma append_rows_other:
  "p \<noteq> fp \<Longrightarrow> files (foldl (\<lambda>w' row. CsvDB_append_row fp (f row) w') w rows) p = files w p"
  by (induction rows arbitrary: w) (simp_all add: CsvDB_append_row_def Let_def)

lemma insert_many_other:
  assumes "p \<noteq> fp"
  shows "files (CsvDB_insert_many fp models w) p = files w p"
    and "cache_headers (CsvDB_insert_many fp models w) p = cache_headers w p"
proof -
  obtain h0 w1 where g: "CsvDB_get_headers fp w = (h0, w1)" by (cases "CsvDB_get_headers fp w")
  show "files (CsvDB_insert_many fp models w) p = files w p"
    using g get_headers_cases [OF g] assms
    by (cases models)
       (simp_all add: CsvDB_insert_many_def Let_def append_rows_other CsvDB_write_rows_def
                 del: foldl_Cons)
  show "cache_headers (CsvDB_insert_many fp models w) p = cache_headers w p"
    using g get_headers_cases [OF g] assms
    by (cases models)
       (simp_all add: CsvDB_insert_many_def Let_def append_rows_cache CsvDB_write_rows_def
                 del: foldl_Cons)
qed

lemma insert_many_codec:
  "parse_tail (CsvDB_insert_many fp models w) = parse_tail w"
proof -
  obtain h0 w1 where g: "CsvDB_get_headers fp w = (h0, w1)" by (cases "CsvDB_get_headers fp w")
  show ?thesis
    using g get_headers_codec [OF g]
    by (cases models)
       (simp_all add: CsvDB_insert_many_def Let_def append_rows_codec CsvDB_write_rows_def
                 del: foldl_Cons)
qed

lemma insert_many_keeps_complete:
  assumes "file_complete p w" and "file_complete fp w"
  shows "file_complete p (CsvDB_insert_many fp models w)"
proof (cases models)
  case Nil
  with assms show ?thesis by (simp add: CsvDB_insert_many_def)
next
  case (Cons m0 rest)
  obtain h0 w1 where g: "CsvDB_get_headers fp w = (h0, w1)" by (cases "CsvDB_get_headers fp w")
  show ?thesis
  proof (cases "p = fp")
    case False
    with insert_many_other(1) [of p fp models w] assms(1) show ?thesis
      by (simp add: file_complete_def)
  next
    case True
    with insert_many_files [OF g, of m0 rest] assms(2) Cons show ?thesis
      by (simp add: file_complete_def)
  qed
qed

lemma insert_many_keeps_coherent:
  assumes "cache_coherent p w" and "file_complete fp w"
  shows "cache_coherent p (CsvDB_insert_many fp models w)"
proof (cases models)
  case Nil
  with assms show ?thesis by (simp add: CsvDB_insert_many_def)
next
  case (Cons m0 rest)
  obtain h0 w1 where g: "CsvDB_get_headers fp w = (h0, w1)" by (cases "CsvDB_get_headers fp w")
  show ?thesis
  proof (cases "p = fp")
    case False
    from coherent_cong [OF insert_many_other(2) [OF False] insert_many_other(1) [OF False]
                           insert_many_codec] assms(1)
    show ?thesis by simp
  next
    case True
    have h0: "h0 = file_headers w fp"
      using get_headers_coherent [OF _ g] assms True by simp
    show ?thesis
      using insert_many_files [OF g, of m0 rest] insert_many_cache [OF g, of m0 rest]
            assms(2) h0 True Cons
      by (auto simp: cache_coherent_def file_headers_def stored_rows_def file_complete_def
                     csv_reader_def
               split: option.splits list.splits)
  qed
qed

section \<open>Deleting all rows\<close>












section \<open>Insert, then read back\<close>

lemma row_values_mapped_row:
  assumes "distinct (map (\<lambda>k. dict_get fm k k) (map fst (model_dump m)))"
  shows "row_values (map (\<lambda>k. dict_get fm k k) (map fst (model_dump m))) (mapped_row fm m)
           = map snd (model_dump m)"
proof -
  have z: "map (\<lambda>(k, v). (dict_get fm k k, v)) (model_dump m)
             = zip (map (\<lambda>k. dict_get fm k k) (map fst (model_dump m))) (map snd (model_dump m))"
    by (rule map_keys_zip)
  show ?thesis
    unfolding row_values_def mapped_row_distinct [OF assms] z
    by (rule dict_get_zip [OF assms]) simp
qed

lemma parse_row_aligned:
  assumes "distinct hdrs" "length cells = length hdrs"
    and "distinct (map (\<lambda>h. dict_get rmap h h) hdrs)"
  shows "parse_row M rmap hdrs cells
           = construct M (zip (map (\<lambda>h. dict_get rmap h h) hdrs) (map PStr cells))"
proof -
  have d1: "dict_of_items (zip hdrs (map PStr cells)) = zip hdrs (map PStr cells)"
    using assms(1,2) by (intro dict_of_items_distinct) simp
  have m: "map (\<lambda>(k, v). (dict_get rmap k k, v)) (zip hdrs (map PStr cells))
             = zip (map (\<lambda>h. dict_get rmap h h) hdrs) (map PStr cells)"
    by (simp add: zip_map1)
  have d2: "dict_of_items (zip (map (\<lambda>h. dict_get rmap h h) hdrs) (map PStr cells))
              = zip (map (\<lambda>h. dict_get rmap h h) hdrs) (map PStr cells)"
    using assms(2,3) by (intro dict_of_items_distinct) simp
  show ?thesis
    using assms(2) by (simp add: parse_row_def DictReader_row_def d1 m d2)
qed

text \<open>
  Claim C5 as stated fails on a header-only table whose header row lacks a field of the
  records: the table has the one column \<open>Full Name\<close>; the contact inserted loses its email
  address on the way in, the row read back does not validate, and \<open>get_all\<close> returns the
  empty list instead of the contact.
\<close>

theorem insert_many_get_all_counterexample:
  "files header_only_world ''contacts.csv'' = Some (complete [[''Full Name'']])
   \<and> CsvDB_get_all ''contacts.csv'' Contact None
        (CsvDB_insert_many ''contacts.csv'' [contact ''Alice'' ''a@x.com''] header_only_world)
     = Inr []"
proof -
  have g: "CsvDB_get_headers ''contacts.csv'' header_only_world =
             ([''Full Name''], header_only_world\<lparr>cache_headers := [''contacts.csv'' \<mapsto> [''Full Name'']]\<rparr>)"
    by (simp add: CsvDB_get_headers_def header_only_world_def world0_def csv_reader_complete Let_def)
  have c: "[''Full Name''] = [] \<or> file_complete ''contacts.csv'' header_only_world"
    by (simp add: file_complete_def header_only_world_def)
  have f: "files (CsvDB_insert_many ''contacts.csv'' [contact ''Alice'' ''a@x.com''] header_only_world)
             ''contacts.csv'' = Some (complete [[''Full Name''], [''Alice'']])"
    using insert_many_files [OF g c, of "contact ''Alice'' ''a@x.com''" "[]"]
    by (simp add: header_only_world_def stored_rows_def row_values_def mapped_row_def
                  dict_of_items_def dict_get_def contact_def py_str_def)
  have p: "parse_row Contact [(''Full Name'', ''name''), (''Email Address'', ''email'')]
             [''Full Name''] [''Alice''] = None"
    by (simp add: parse_row_def DictReader_row_def dict_of_items_def dict_get_def
                  Contact_def str_model_def)
  show ?thesis
    by (simp add: f CsvDB_get_all_def csv_reader_complete Contact_rmap p)
       (simp add: header_only_world_def)
qed

text \<open>
  Claim C5, amended. Let a non-empty list of records of one model class be inserted with
  \<open>insert_many\<close> where there is no file, an empty file, or a file that is the header row
  alone and ends with a complete line, that header row being the mapped names of the
  declared fields, and let the header cache be coherent. Suppose the records declare the
  same fields (at least one), reverse-mapping the mapped name of every declared field gives
  the field back, and the model class validates the text of each inserted record to that
  record. Then \<open>get_all\<close> without filters returns exactly the inserted records, in input
  order.
\<close>

theorem insert_many_get_all_roundtrip:
  assumes cls: "cls_get_field_map M = Some fm"
    and rmap: "generate_field_map M = Inr rmap"
    and m0: "get_field_map m0 = fm"
    and fields: "\<forall>r\<in>set (m0 # rest). map fst (model_dump r) = fs"
    and fs: "fs \<noteq> []" "distinct fs"
    and rmap_fs: "\<forall>k\<in>set fs. dict_get rmap (dict_get fm k k) (dict_get fm k k) = k"
    and parse: "\<forall>r\<in>set (m0 # rest).
                  construct M (map (\<lambda>(k, v). (k, PStr (py_str v))) (model_dump r)) = Some r"
    and coh: "cache_coherent fp w"
    and tbl: "files w fp = None \<or> files w fp = Some (complete [])
              \<or> files w fp = Some (complete [map (\<lambda>k. dict_get fm k k) fs])"
  shows "CsvDB_get_all fp M None (CsvDB_insert_many fp (m0 # rest) w) = Inr (m0 # rest)"
proof -
  let ?hdr = "\<lambda>k. dict_get fm k k"
  let ?hdrs = "map ?hdr fs"
  have rmap_hdrs: "map (\<lambda>h. dict_get rmap h h) ?hdrs = fs"
    using rmap_fs by (simp add: map_idI)
  have dh: "distinct ?hdrs"
  proof -
    have "inj_on ?hdr (set fs)"
      using rmap_fs by (intro inj_on_inverseI [where g = "\<lambda>h. dict_get rmap h h"]) simp
    with fs(2) show ?thesis by (simp add: distinct_map)
  qed
  have hne: "?hdrs \<noteq> []" using fs(1) by simp
  have fr: "map fst (model_dump r) = fs" if "r \<in> set (m0 # rest)" for r
    using fields that by blast
  have dm: "distinct (map ?hdr (map fst (model_dump r)))" if "r \<in> set (m0 # rest)" for r
    using dh by (simp only: fr [OF that])
  have rv: "row_values ?hdrs (mapped_row fm r) = map snd (model_dump r)" if "r \<in> set (m0 # rest)" for r
    using row_values_mapped_row [OF dm [OF that]] by (simp only: fr [OF that])
  have keys0: "map fst (mapped_row fm m0) = ?hdrs"
  proof -
    have "map fst (map (\<lambda>(k, v). (?hdr k, v)) xs) = map ?hdr (map fst xs)" for xs :: "(string \<times> pyval) list"
      by (induction xs) auto
    then have "map fst (mapped_row fm m0) = map ?hdr (map fst (model_dump m0))"
      using mapped_row_distinct [OF dm [of m0]] by simp
    then show ?thesis by (simp only: fr [of m0, simplified])
  qed
  obtain h0 w1 where g: "CsvDB_get_headers fp w = (h0, w1)" by (cases "CsvDB_get_headers fp w")
  have h0: "h0 = file_headers w fp" by (rule get_headers_coherent [OF coh g])
  have fc: "h0 = [] \<or> file_complete fp w"
    using tbl by (auto simp: file_complete_def)
  let ?rows = "map (\<lambda>m. map py_str (map snd (model_dump m))) (m0 # rest)"
  have file': "files (CsvDB_insert_many fp (m0 # rest) w) fp = Some (complete (?hdrs # ?rows))"
  proof -
    note F = insert_many_files [OF g fc, of m0 rest, unfolded m0]
    have hd: "(if h0 = [] then map fst (mapped_row fm m0) else h0) = ?hdrs"
      using tbl h0 keys0 hne by (auto simp: file_headers_def csv_reader_complete)
    have pre: "(if h0 = [] then [map fst (mapped_row fm m0)] else stored_rows w fp) = [?hdrs]"
      using tbl h0 keys0 hne by (auto simp: file_headers_def stored_rows_def csv_reader_complete)
    have rows: "map (\<lambda>m. map py_str (row_values ?hdrs (mapped_row fm m))) (m0 # rest) = ?rows"
      using rv by (intro map_cong) auto
    show ?thesis
      using F unfolding hd pre rows by simp
  qed
  have loop: "get_all_loop M rmap None ?hdrs (map (\<lambda>m. map py_str (map snd (model_dump m))) rs) = rs"
    if "set rs \<subseteq> set (m0 # rest)" for rs
    using that
  proof (induction rs)
    case Nil
    then show ?case by simp
  next
    case (Cons r rs)
    then have r: "r \<in> set (m0 # rest)" by simp
    then have fr: "map fst (model_dump r) = fs" using fields by blast
    have len: "length (map py_str (map snd (model_dump r))) = length ?hdrs"
      using fr [symmetric] by simp
    have ne: "map py_str (map snd (model_dump r)) \<noteq> []"
      using len hne by (metis length_0_conv)
    have "parse_row M rmap ?hdrs (map py_str (map snd (model_dump r)))
            = construct M (zip fs (map PStr (map py_str (map snd (model_dump r)))))"
      using parse_row_aligned [OF dh len, of rmap M] fs(2) by (simp only: rmap_hdrs)
    also have "zip fs (map PStr (map py_str (map snd (model_dump r))))
                 = map (\<lambda>(k, v). (k, PStr (py_str v))) (model_dump r)"
      using zip_fst_snd [of "model_dump r" "\<lambda>v. PStr (py_str v)"] fr by (simp add: comp_def)
    also have "construct M \<dots> = Some r" using parse r by blast
    finally have "parse_row M rmap ?hdrs (map py_str (map snd (model_dump r))) = Some r" .
    with ne Cons show ?case by simp
  qed
  from file' rmap loop [of "m0 # rest"] show ?thesis
    by (simp add: CsvDB_get_all_def csv_reader_complete)
qed

text \<open>
  Two contacts inserted where no file exists, and two contacts inserted into the file
  that is the header row of the contacts alone, are read back as they were, in order.
\<close>

theorem insert_many_get_all_roundtrip_witness:
  "CsvDB_get_all ''contacts.csv'' Contact None
     (CsvDB_insert_many ''contacts.csv''
        [contact ''Alice'' ''a@x.com'', contact ''Bob'' ''b@x.com''] world0)
     = Inr [contact ''Alice'' ''a@x.com'', contact ''Bob'' ''b@x.com'']
   \<and> CsvDB_get_all ''contacts.csv'' Contact None
     (CsvDB_insert_many ''contacts.csv''
        [contact ''Alice'' ''a@x.com'', contact ''Bob'' ''b@x.com''] contacts_header_world)
     = Inr [contact ''Alice'' ''a@x.com'', contact ''Bob'' ''b@x.com'']"
proof -
  let ?fm = "[(''name'', ''Full Name''), (''email'', ''Email Address'')]"
  let ?rmap = "[(''Full Name'', ''name''), (''Email Address'', ''email'')]"
  let ?fs = "[''name'', ''email'']"
  have cls: "cls_get_field_map Contact = Some ?fm"
    by (simp add: Contact_def str_model_def)
  have m0: "get_field_map (contact ''Alice'' ''a@x.com'') = ?fm"
    by (simp add: contact_def)
  have flds: "\<forall>r\<in>set [contact ''Alice'' ''a@x.com'', contact ''Bob'' ''b@x.com''].
                map fst (model_dump r) = ?fs"
    by (simp add: contact_def)
  have ne: "?fs \<noteq> []" by simp
  have dist: "distinct ?fs" by simp
  have rfs: "\<forall>k\<in>set ?fs. dict_get ?rmap (dict_get ?fm k k) (dict_get ?fm k k) = k"
    by (simp add: dict_get_def)
  have prs: "\<forall>r\<in>set [contact ''Alice'' ''a@x.com'', contact ''Bob'' ''b@x.com''].
               construct Contact (map (\<lambda>(k, v). (k, PStr (py_str v))) (model_dump r)) = Some r"
    by (simp add: contact_def Contact_def str_model_def py_str_def dict_get_def)
  have coh0: "cache_coherent ''contacts.csv'' world0"
    by (simp add: cache_coherent_def world0_def)
  have tbl0: "files world0 ''contacts.csv'' = None \<or> files world0 ''contacts.csv'' = Some (complete [])
        \<or> files world0 ''contacts.csv'' = Some (complete [map (\<lambda>k. dict_get ?fm k k) ?fs])"
    by (simp add: world0_def)
  have coh1: "cache_coherent ''contacts.csv'' contacts_header_world"
    by (simp add: cache_coherent_def contacts_header_world_def world0_def)
  have tbl1: "files contacts_header_world ''contacts.csv'' = None
        \<or> files contacts_header_world ''contacts.csv'' = Some (complete [])
        \<or> files contacts_header_world ''contacts.csv''
            = Some (complete [map (\<lambda>k. dict_get ?fm k k) ?fs])"
    by (simp add: contacts_header_world_def dict_get_def)
  from insert_many_get_all_roundtrip [OF cls Contact_rmap m0 flds ne dist rfs prs coh0 tbl0]
       insert_many_get_all_roundtrip [OF cls Contact_rmap m0 flds ne dist rfs prs coh1 tbl1]
  show ?thesis by simp
qed

section \<open>Reading a table that does not exist\<close>

text \<open>
  Claim C3 as stated fails in the remote spreadsheet adapter: with no worksheet for the
  model's sheet name, \<open>get_all\<close> raises \<open>ValueError\<close>.
\<close>

theorem get_all_missing_table_counterexample:
  "worksheets gsheet_world0 (get_class_sheet_name Contact) = None
   \<and> fst (GoogleSheetDB_get_all Contact None gsheet_world0) = Inl ValueError"
  by (simp add: GoogleSheetDB_get_all_def GoogleSheetDB_get_worksheet_def gsheet_world0_def Let_def)

text \<open>
  Claim C3, amended. When the table of the model type does not exist, \<open>get_all\<close> returns the
  empty list in the delimited-text adapter (no file at the path), and raises \<open>ValueError\<close>
  in the local workbook adapter (no sheet of that name in the workbook) and in the remote
  spreadsheet adapter (no worksheet of that name): there \<open>_get_worksheet\<close> is called without
  headers and refuses to create the sheet.
\<close>

theorem get_all_missing_table:
  "(files w file_path = None \<longrightarrow> CsvDB_get_all file_path M flt w = Inr [])
   \<and> (get_class_sheet_name M \<notin> set (map fst (fst (ExcelDB_get_workbook xlsx_path s)))
        \<longrightarrow> fst (ExcelDB_get_all xlsx_path M flt s) = Inl ValueError)
   \<and> (worksheets g (get_class_sheet_name M) = None
        \<longrightarrow> fst (GoogleSheetDB_get_all M flt g) = Inl ValueError)"
proof (intro conjI impI)
  assume "files w file_path = None"
  then show "CsvDB_get_all file_path M flt w = Inr []"
    by (simp add: CsvDB_get_all_def)
next
  assume "get_class_sheet_name M \<notin> set (map fst (fst (ExcelDB_get_workbook xlsx_path s)))"
  then show "fst (ExcelDB_get_all xlsx_path M flt s) = Inl ValueError"
    by (cases "ExcelDB_get_workbook xlsx_path s")
       (simp add: ExcelDB_get_all_def ExcelDB_get_worksheet_def)
next
  assume "worksheets g (get_class_sheet_name M) = None"
  then show "fst (GoogleSheetDB_get_all M flt g) = Inl ValueError"
    by (simp add: GoogleSheetDB_get_all_def GoogleSheetDB_get_worksheet_def Let_def)
qed

text \<open>
  In the worlds of a fresh process the table of \<open>Contact\<close> exists in no adapter.
\<close>

theorem get_all_missing_table_witness:
  "CsvDB_get_all ''contacts.csv'' Contact None world0 = Inr []
   \<and> fst (ExcelDB_get_all ''contacts.xlsx'' Contact None excel_world0) = Inl ValueError
   \<and> fst (GoogleSheetDB_get_all Contact None gsheet_world0) = Inl ValueError"
proof -
  have a: "files world0 ''contacts.csv'' = None"
    by (simp add: world0_def)
  have b: "get_class_sheet_name Contact
             \<notin> set (map fst (fst (ExcelDB_get_workbook ''contacts.xlsx'' excel_world0)))"
    by (simp add: ExcelDB_get_workbook_def excel_world0_def Contact_def str_model_def Let_def)
  have c: "worksheets gsheet_world0 (get_class_sheet_name Contact) = None"
    by (simp add: gsheet_world0_def)
  from a b c get_all_missing_table [of world0 "''contacts.csv''" Contact None "''contacts.xlsx''" excel_world0 gsheet_world0]
  show ?thesis by blast
qed

end
